theory Spec2Isabelle
  imports Main
begin

section \<open>The query source controller (query_source.js)\<close>

text \<open>
  A shallow embedding of \<^verbatim>\<open>QuerySourceCtrl\<close>: the closure variables and the scope
  fields the controller reads and writes are the fields of one record, every function the
  controller installs on the scope takes the record and returns it updated, and the
  callbacks it hands to promises are a datatype of closures that run when the promise they
  were attached to settles.
\<close>

subsection \<open>Values exchanged with the collaborators\<close>

text \<open>
  \<^verbatim>\<open>$scope.selectedTab\<close> holds either a string (\<^verbatim>\<open>'table'\<close>, or whatever the URL
  fragment says) or the numeric id of a visualization.
\<close>

datatype tab_value = TabStr string | TabNum int

record visualization =
  vis_id :: int
  vis_name :: string

text \<open>
  The object a save or a fork resolves with: \<^verbatim>\<open>savedQuery.query\<close>,
  \<^verbatim>\<open>savedQuery.version\<close> and the string \<^verbatim>\<open>savedQuery.getSourceLink()\<close> returns.
\<close>

record saved_query =
  sq_query :: string
  sq_version :: int
  sq_source_link :: string

text \<open>The object a save is rejected with: \<^verbatim>\<open>error.status\<close>, an HTTP status code.\<close>

record http_error =
  err_status :: int

record save_options =
  successMessage :: string
  errorMessage :: string

type_synonym save_data = "(string \<times> string) list"

text \<open>A message handed to \<^verbatim>\<open>growl.addErrorMessage(text, {ttl: ...})\<close>.\<close>

record growl_message =
  gm_text :: string
  gm_ttl :: "int option"

text \<open>\<^verbatim>\<open>Events.record(currentUser, action, object_type, object_id)\<close>.\<close>

datatype event = Event string string "int option"

record dom_event =
  defaultPrevented :: bool

datatype js_error = TypeError | URIError

datatype 'a completion = Returns 'a | Throws js_error

subsection \<open>The navigation service\<close>

text \<open>
  \<^verbatim>\<open>$location\<close> keeps a path, a search part and a fragment; \<^verbatim>\<open>replace()\<close> marks the
  next history entry as replacing the current one. The setters follow the framework's:
  \<^verbatim>\<open>path(p)\<close> changes the path only and adds a leading slash when it is missing,
  \<^verbatim>\<open>hash(h)\<close> changes the fragment only, and \<^verbatim>\<open>url(u)\<close> matches \<^verbatim>\<open>u\<close> against
  \<^verbatim>\<open>/^([^\?#]*)(\?([^#]*))?(#(.*))?$/\<close>, sets the path to the decoded first group when
  that group is not empty, the search part when the first or the second group is there,
  and always the fragment. \<open>loc_search\<close> holds the string last handed to
  \<^verbatim>\<open>search()\<close>. Strings are sequences of bytes, a character beyond ASCII being the bytes
  of its UTF-8 encoding.
\<close>

record location =
  loc_path :: string
  loc_search :: string
  loc_hash :: string
  loc_replace :: bool

definition location_path :: "string \<Rightarrow> location \<Rightarrow> location" where
  "location_path p loc =
     loc\<lparr>loc_path := (case p of [] \<Rightarrow> ''/'' | c # cs \<Rightarrow> if c = CHR ''/'' then p else CHR ''/'' # p)\<rparr>"

definition location_hash :: "string \<Rightarrow> location \<Rightarrow> location" where
  "location_hash h loc = loc\<lparr>loc_hash := h\<rparr>"

definition location_search :: "string \<Rightarrow> location \<Rightarrow> location" where
  "location_search q loc = loc\<lparr>loc_search := q\<rparr>"

definition location_replace :: "location \<Rightarrow> location" where
  "location_replace loc = loc\<lparr>loc_replace := True\<rparr>"

definition url_path :: "string \<Rightarrow> string" where
  "url_path u = takeWhile (\<lambda>c. c \<noteq> CHR ''?'' \<and> c \<noteq> CHR ''#'') u"

definition url_after_path :: "string \<Rightarrow> string" where
  "url_after_path u = dropWhile (\<lambda>c. c \<noteq> CHR ''?'' \<and> c \<noteq> CHR ''#'') u"

definition url_has_search :: "string \<Rightarrow> bool" where
  "url_has_search u = (case url_after_path u of [] \<Rightarrow> False | c # cs \<Rightarrow> c = CHR ''?'')"

definition url_search :: "string \<Rightarrow> string" where
  "url_search u =
     (if url_has_search u then takeWhile (\<lambda>c. c \<noteq> CHR ''#'') (tl (url_after_path u)) else [])"

definition url_hash :: "string \<Rightarrow> string" where
  "url_hash u = (case dropWhile (\<lambda>c. c \<noteq> CHR ''#'') u of [] \<Rightarrow> [] | c # cs \<Rightarrow> cs)"

text \<open>
  \<^verbatim>\<open>decodeURIComponent\<close>: every \<^verbatim>\<open>%\<close> must be followed by two hexadecimal digits; an
  escaped byte below 128 is the character itself, a higher one must start a well-formed
  UTF-8 sequence of two to four escaped bytes, which decodes to the character they encode.
  Anything else throws a \<open>URIError\<close>.
\<close>

definition hex_value :: "char \<Rightarrow> nat option" where
  "hex_value c =
     (let n = (of_char c :: nat)
      in if 48 \<le> n \<and> n \<le> 57 then Some (n - 48)
         else if 65 \<le> n \<and> n \<le> 70 then Some (n - 55)
         else if 97 \<le> n \<and> n \<le> 102 then Some (n - 87)
         else None)"

datatype uri_token = Lit char | Esc nat

fun uri_tokens :: "string \<Rightarrow> uri_token list option" where
  "uri_tokens [] = Some []"
| "uri_tokens (c # cs) =
     (if c = CHR ''%''
      then (case cs of
              h1 # h2 # rest \<Rightarrow>
                (case (hex_value h1, hex_value h2) of
                   (Some a, Some b) \<Rightarrow> map_option ((#) (Esc (16 * a + b))) (uri_tokens rest)
                 | _ \<Rightarrow> None)
            | _ \<Rightarrow> None)
      else map_option ((#) (Lit c)) (uri_tokens cs))"

text \<open>The number of bytes of the UTF-8 sequence a byte of 128 or more starts.\<close>

definition utf8_length :: "nat \<Rightarrow> nat" where
  "utf8_length b =
     (if b < 192 then 1 else if b < 224 then 2 else if b < 240 then 3 else if b < 248 then 4 else 5)"

text \<open>
  A sequence of a leading byte and its continuation bytes is valid when the code point is
  not encoded longer than needed, is no surrogate and is at most \<^verbatim>\<open>0x10FFFF\<close>.
\<close>

definition utf8_valid :: "nat list \<Rightarrow> bool" where
  "utf8_valid octets =
     (case octets of
        [b0, b1] \<Rightarrow> 128 \<le> (b0 mod 32) * 64 + b1 mod 64
      | [b0, b1, b2] \<Rightarrow>
          (let v = (b0 mod 16) * 4096 + (b1 mod 64) * 64 + b2 mod 64
           in 2048 \<le> v \<and> \<not> (55296 \<le> v \<and> v \<le> 57343))
      | [b0, b1, b2, b3] \<Rightarrow>
          (let v = (b0 mod 8) * 262144 + (b1 mod 64) * 4096 + (b2 mod 64) * 64 + b3 mod 64
           in 65536 \<le> v \<and> v \<le> 1114111)
      | _ \<Rightarrow> False)"

text \<open>
  \<open>decode_tokens k octets ts\<close>: \<open>k\<close> continuation bytes are still due for the sequence
  whose bytes so far are \<open>octets\<close>.
\<close>

fun decode_tokens :: "nat \<Rightarrow> nat list \<Rightarrow> uri_token list \<Rightarrow> string option" where
  "decode_tokens k octets [] = (if k = 0 then Some [] else None)"
| "decode_tokens k octets (t # ts) =
     (if k = 0
      then (case t of
              Lit c \<Rightarrow> map_option ((#) c) (decode_tokens 0 [] ts)
            | Esc b \<Rightarrow>
                if b < 128 then map_option ((#) (char_of b)) (decode_tokens 0 [] ts)
                else if utf8_length b = 1 \<or> 4 < utf8_length b then None
                else decode_tokens (utf8_length b - 1) [b] ts)
      else (case t of
              Lit c \<Rightarrow> None
            | Esc b \<Rightarrow>
                if 128 \<le> b \<and> b < 192
                then (if k = 1
                      then (if utf8_valid (octets @ [b])
                            then map_option ((@) (map char_of (octets @ [b])))
                                   (decode_tokens 0 [] ts)
                            else None)
                      else decode_tokens (k - 1) (octets @ [b]) ts)
                else None))"

definition decodeURIComponent :: "string \<Rightarrow> js_error + string" where
  "decodeURIComponent u =
     (case uri_tokens u of
        None \<Rightarrow> Inl URIError
      | Some ts \<Rightarrow> (case decode_tokens 0 [] ts of None \<Rightarrow> Inl URIError | Some r \<Rightarrow> Inr r))"

text \<open>
  The \<^verbatim>\<open>.\<close> of the pattern matches no line terminator (LF, CR, U+2028, U+2029): with
  one in the fragment the pattern does not match, and reading a group of the missing
  match throws a \<open>TypeError\<close>.
\<close>

fun has_line_terminator :: "string \<Rightarrow> bool" where
  "has_line_terminator [] = False"
| "has_line_terminator (c # cs) =
     (c = CHR 0x0A \<or> c = CHR 0x0D \<or>
      (c = CHR 0xE2 \<and> (take 2 cs = [CHR 0x80, CHR 0xA8] \<or> take 2 cs = [CHR 0x80, CHR 0xA9])) \<or>
      has_line_terminator cs)"

text \<open>
  \<^verbatim>\<open>url(u)\<close>: both failures happen before the first setter runs, so a call that throws
  has changed nothing.
\<close>

definition location_url :: "string \<Rightarrow> location \<Rightarrow> js_error + location" where
  "location_url u loc =
     (if has_line_terminator (url_hash u) then Inl TypeError
      else if url_path u \<noteq> []
      then (case decodeURIComponent (url_path u) of
              Inl e \<Rightarrow> Inl e
            | Inr p \<Rightarrow>
                Inr (location_hash (url_hash u)
                       (location_search (url_search u) (location_path p loc))))
      else Inr (location_hash (url_hash u)
                  (if url_has_search u then location_search (url_search u) loc else loc)))"

subsection \<open>The controller's state\<close>

text \<open>
  A promise is an object of the collaborator; here it is a handle. The base controller's
  \<^verbatim>\<open>saveQuery\<close> and \<^verbatim>\<open>forkQuery\<close> are not part of this file: they are a parameter,
  a function from the arguments they are called with to the promise they return, or to
  \<open>None\<close> when they return nothing.
\<close>

type_synonym promise = nat

type_synonym collaborator = "save_options option \<Rightarrow> save_data option \<Rightarrow> promise option"

datatype settlement = Fulfilled saved_query | Rejected http_error

text \<open>
  The closures the controller attaches with \<^verbatim>\<open>.then\<close>: the pair of handlers of
  \<^verbatim>\<open>$scope.saveQuery\<close>, the handler of \<^verbatim>\<open>$scope.forkQuery\<close>, and \<^verbatim>\<open>redirect\<close> of
  \<^verbatim>\<open>$scope.duplicateQuery\<close>. A callback that throws rejects the promise \<^verbatim>\<open>.then\<close>
  returned, which nobody holds, and leaves the state as it was when it threw.
\<close>

datatype callback = SaveThen | ForkThen | DuplicateRedirect

record query =
  q_id :: "int option"
  q_query :: string
  q_version :: int
  q_visualizations :: "visualization list"

text \<open>
  \<open>isNewQuery\<close> and \<open>queryText\<close> are the closure variables of the controller, the
  \<open>query_\<close> fields are \<^verbatim>\<open>$scope.query\<close>, \<open>thens\<close> lists the callbacks attached to
  promises that have not settled yet, in the order they were attached, \<open>deletes\<close> the
  visualizations whose deletion has been requested and not answered, and \<open>watched\<close> the
  value of \<^verbatim>\<open>query.query\<close> the watcher saw last (\<open>None\<close> before its first run).
\<close>

record session =
  isNewQuery :: bool
  queryText :: string
  query_id :: "int option"
  query_query :: string
  query_version :: int
  query_visualizations :: "visualization list"
  isDirty :: bool
  selectedTab :: tab_value
  location :: location
  growl :: "growl_message list"
  events :: "event list"
  thens :: "(promise \<times> callback) list"
  deletes :: "visualization list"
  watched :: "string option"

definition DEFAULT_TAB :: string where
  "DEFAULT_TAB = ''table''"

definition Events_record :: "string \<Rightarrow> string \<Rightarrow> int option \<Rightarrow> session \<Rightarrow> session" where
  "Events_record action object_type object_id s =
     s\<lparr>events := events s @ [Event action object_type object_id]\<rparr>"

definition growl_addErrorMessage :: "string \<Rightarrow> int option \<Rightarrow> session \<Rightarrow> session" where
  "growl_addErrorMessage text ttl s = s\<lparr>growl := growl s @ [\<lparr>gm_text = text, gm_ttl = ttl\<rparr>]\<rparr>"

text \<open>\<^verbatim>\<open>!$scope.query.id\<close>: an id that is missing or zero is falsy.\<close>

definition falsy_id :: "int option \<Rightarrow> bool" where
  "falsy_id i = (case i of None \<Rightarrow> True | Some n \<Rightarrow> n = 0)"

text \<open>
  The body of the controller, for the fields above: it records the view, reads
  \<open>isNewQuery\<close> and \<open>queryText\<close> off the query once, and clears \<open>isDirty\<close>.
\<close>

definition QuerySourceCtrl :: "query \<Rightarrow> tab_value \<Rightarrow> location \<Rightarrow> session" where
  "QuerySourceCtrl q tab loc =
     Events_record ''view_source'' ''query'' (q_id q)
       \<lparr>isNewQuery = falsy_id (q_id q),
        queryText = q_query q,
        query_id = q_id q,
        query_query = q_query q,
        query_version = q_version q,
        query_visualizations = q_visualizations q,
        isDirty = False,
        selectedTab = tab,
        location = loc,
        growl = [],
        events = [],
        thens = [],
        deletes = [],
        watched = None\<rparr>"

subsection \<open>The watcher of the query text\<close>

text \<open>
  \<^verbatim>\<open>$scope.$watch('query.query', function(newQueryText) {...})\<close>: in a digest the
  listener runs when the watched value is not the one it saw last.
\<close>

definition watch_listener :: "string \<Rightarrow> session \<Rightarrow> session" where
  "watch_listener newQueryText s = s\<lparr>isDirty := (newQueryText \<noteq> queryText s)\<rparr>"

definition digest :: "session \<Rightarrow> session" where
  "digest s =
     (if watched s = Some (query_query s) then s
      else (watch_listener (query_query s) s)\<lparr>watched := Some (query_query s)\<rparr>)"

text \<open>An edit: the editor writes the new text into \<^verbatim>\<open>query.query\<close> and a digest follows.\<close>

definition edit :: "string \<Rightarrow> session \<Rightarrow> session" where
  "edit t s = digest (s\<lparr>query_query := t\<rparr>)"

subsection \<open>Promises and their callbacks\<close>

definition conflict_message :: string where
  "conflict_message =
     ''It seems like the query has been modified by another user. '' @
     ''Please copy/backup your changes and reload this page.''"

fun run_callback :: "callback \<Rightarrow> settlement \<Rightarrow> session \<Rightarrow> session" where
  "run_callback SaveThen (Fulfilled savedQuery) s =
     (let s1 = s\<lparr>queryText := sq_query savedQuery\<rparr>;
          s2 = s1\<lparr>isDirty := (query_query s1 \<noteq> queryText s1)\<rparr>;
          s3 = s2\<lparr>query_version := sq_version savedQuery\<rparr>
      in if isNewQuery s3
         then s3\<lparr>location := location_path (sq_source_link savedQuery) (location s3)\<rparr>
         else s3)"
| "run_callback SaveThen (Rejected error) s =
     (if err_status error = 409
      then growl_addErrorMessage conflict_message (Some (- 1)) s
      else s)"
| "run_callback ForkThen (Fulfilled savedQuery) s = s\<lparr>queryText := sq_query savedQuery\<rparr>"
| "run_callback ForkThen (Rejected error) s = s"
| "run_callback DuplicateRedirect (Fulfilled savedQuery) s =
     (case location_url (sq_source_link savedQuery) (location s) of
        Inl e \<Rightarrow> s
      | Inr loc \<Rightarrow> s\<lparr>location := location_replace loc\<rparr>)"
| "run_callback DuplicateRedirect (Rejected error) s = s"

definition promise_then :: "promise \<Rightarrow> callback \<Rightarrow> session \<Rightarrow> session" where
  "promise_then p cb s = s\<lparr>thens := thens s @ [(p, cb)]\<rparr>"

definition callbacks_of :: "promise \<Rightarrow> session \<Rightarrow> callback list" where
  "callbacks_of p s = map snd (filter (\<lambda>e. fst e = p) (thens s))"

text \<open>
  The promise \<open>p\<close> settles: the callbacks attached to it run in the order they were
  attached, each on the state the one before left.
\<close>

definition settle :: "promise \<Rightarrow> settlement \<Rightarrow> session \<Rightarrow> session" where
  "settle p r s =
     foldl (\<lambda>st cb. run_callback cb r st)
       (s\<lparr>thens := filter (\<lambda>e. fst e \<noteq> p) (thens s)\<rparr>)
       (callbacks_of p s)"

subsection \<open>The operations the controller puts on the scope\<close>

definition saveQuery ::
  "collaborator \<Rightarrow> save_options option \<Rightarrow> save_data option \<Rightarrow> session
     \<Rightarrow> session \<times> promise option" where
  "saveQuery saveQuery_base options data s =
     (case saveQuery_base options data of
        None \<Rightarrow> (s, None)
      | Some savePromise \<Rightarrow> (promise_then savePromise SaveThen s, Some savePromise))"

definition forkQuery ::
  "collaborator \<Rightarrow> save_options option \<Rightarrow> save_data option \<Rightarrow> session
     \<Rightarrow> session \<times> promise option" where
  "forkQuery forkQuery_base options data s =
     (case forkQuery_base options data of
        None \<Rightarrow> (s, None)
      | Some savePromise \<Rightarrow> (promise_then savePromise ForkThen s, Some savePromise))"

definition duplicate_options :: save_options where
  "duplicate_options =
     \<lparr>successMessage = ''Query forked'', errorMessage = ''Query could not be forked''\<rparr>"

text \<open>
  \<^verbatim>\<open>$scope.forkQuery({...}).then(redirect)\<close>: the method call on what
  \<^verbatim>\<open>$scope.forkQuery\<close> returned throws when that is \<^verbatim>\<open>undefined\<close>.
\<close>

definition duplicateQuery :: "collaborator \<Rightarrow> session \<Rightarrow> session \<times> unit completion" where
  "duplicateQuery forkQuery_base s =
     (let s1 = Events_record ''fork'' ''query'' (query_id s) s;
          (s2, forked) = forkQuery forkQuery_base (Some duplicate_options) None s1
      in case forked of
           None \<Rightarrow> (s2, Throws TypeError)
         | Some p \<Rightarrow> (promise_then p DuplicateRedirect s2, Returns ()))"

subsection \<open>Deleting a visualization\<close>

text \<open>
  \<^verbatim>\<open>$scope.selectedTab == vis.id\<close> is the loose comparison: a number is compared as it
  is, a string is converted to a number first. The conversion is the language's, a
  parameter here (\<open>None\<close> for a string that is not the numeral of an integer).
\<close>

fun loose_eq :: "(string \<Rightarrow> int option) \<Rightarrow> tab_value \<Rightarrow> int \<Rightarrow> bool" where
  "loose_eq toNumber (TabNum n) i = (n = i)"
| "loose_eq toNumber (TabStr t) i = (toNumber t = Some i)"

definition confirm_message :: "visualization \<Rightarrow> string" where
  "confirm_message vis = ''Are you sure you want to delete '' @ vis_name vis @ '' ?''"

definition deleteVisualization ::
  "(string \<Rightarrow> bool) \<Rightarrow> dom_event \<Rightarrow> visualization \<Rightarrow> session \<Rightarrow> session \<times> dom_event" where
  "deleteVisualization confirm e vis s =
     (let e1 = e\<lparr>defaultPrevented := True\<rparr>
      in if confirm (confirm_message vis)
         then (let s1 = Events_record ''delete'' ''visualization'' (Some (vis_id vis)) s
               in (s1\<lparr>deletes := deletes s1 @ [vis]\<rparr>, e1))
         else (s, e1))"

definition delete_success :: "(string \<Rightarrow> int option) \<Rightarrow> visualization \<Rightarrow> session \<Rightarrow> session" where
  "delete_success toNumber vis s =
     (let s1 = (if loose_eq toNumber (selectedTab s) (vis_id vis)
                then (let s0 = s\<lparr>selectedTab := TabStr DEFAULT_TAB\<rparr>
                      in s0\<lparr>location := location_hash DEFAULT_TAB (location s0)\<rparr>)
                else s)
      in s1\<lparr>query_visualizations :=
              filter (\<lambda>v. vis_id vis \<noteq> vis_id v) (query_visualizations s1)\<rparr>)"

definition delete_error :: "session \<Rightarrow> session" where
  "delete_error s =
     growl_addErrorMessage ''Error deleting visualization. Maybe it's used in a dashboard?'' None s"

text \<open>The deletion service answers a pending request for \<open>vis\<close>.\<close>

definition delete_settled ::
  "(string \<Rightarrow> int option) \<Rightarrow> visualization \<Rightarrow> bool \<Rightarrow> session \<Rightarrow> session" where
  "delete_settled toNumber vis ok s =
     (if vis \<in> set (deletes s)
      then (let s1 = s\<lparr>deletes := remove1 vis (deletes s)\<rparr>
            in if ok then delete_success toNumber vis s1 else delete_error s1)
      else s)"

subsection \<open>What the specification says of a duplicate\<close>




subsection \<open>Auxiliary predicates and example inputs\<close>

text \<open>What a successful save with result \<open>sq\<close> leaves behind.\<close>

definition saved_state :: "saved_query \<Rightarrow> session \<Rightarrow> bool" where
  "saved_state sq s \<longleftrightarrow>
     queryText s = sq_query sq \<and> query_version s = sq_version sq \<and>
     isDirty s = (query_query s \<noteq> sq_query sq)"

definition conflict_warning :: growl_message where
  "conflict_warning = \<lparr>gm_text = conflict_message, gm_ttl = Some (- 1)\<rparr>"

text \<open>
  The draft of the specification's examples: query 1 with the text \<^verbatim>\<open>SELECT 1\<close>,
  opened with the fragment \<^verbatim>\<open>chart\<close>, after the first digest; a save or fork result
  with the text \<^verbatim>\<open>SELECT 2\<close> and version 2; a collaborator that answers every call
  with the promise 0.
\<close>

definition example_query :: query where
  "example_query = \<lparr>q_id = Some 1, q_query = ''SELECT 1'', q_version = 1, q_visualizations = []\<rparr>"

definition example_location :: location where
  "example_location =
     \<lparr>loc_path = ''/queries/1/source'', loc_search = [], loc_hash = ''chart'', loc_replace = False\<rparr>"

definition example_session :: session where
  "example_session = digest (QuerySourceCtrl example_query (TabStr ''table'') example_location)"

definition example_collaborator :: collaborator where
  "example_collaborator options data = Some 0"

definition example_saved :: saved_query where
  "example_saved = \<lparr>sq_query = ''SELECT 2'', sq_version = 2, sq_source_link = ''/queries/7/source''\<rparr>"

definition example_new_query :: query where
  "example_new_query = \<lparr>q_id = None, q_query = [], q_version = 0, q_visualizations = []\<rparr>"

definition example_new_session :: session where
  "example_new_session = digest (QuerySourceCtrl example_new_query (TabStr ''table'') example_location)"

definition example_vis :: visualization where
  "example_vis = \<lparr>vis_id = 3, vis_name = ''Chart''\<rparr>"

text \<open>
  The example draft with three visualizations, two of them with the id 3, the tab
  \<open>tab\<close> selected and the deletion of \<open>example_vis\<close> confirmed and requested.
\<close>

definition example_vis_session :: "tab_value \<Rightarrow> session" where
  "example_vis_session tab =
     fst (deleteVisualization (\<lambda>m. True) \<lparr>defaultPrevented = False\<rparr> example_vis
       (example_session\<lparr>query_visualizations :=
            [example_vis, \<lparr>vis_id = 4, vis_name = ''Map''\<rparr>, \<lparr>vis_id = 3, vis_name = ''Copy''\<rparr>],
          selectedTab := tab\<rparr>))"

text \<open>
  A conversion that agrees with the language's on the strings of the examples:
  \<^verbatim>\<open>'3'\<close> is the number 3, \<^verbatim>\<open>'table'\<close> and \<^verbatim>\<open>'chart'\<close> are no number.
\<close>

definition example_toNumber :: "string \<Rightarrow> int option" where
  "example_toNumber t = (if t = ''3'' then Some 3 else None)"





lemmas example_defs =
  example_query_def example_location_def example_session_def example_collaborator_def
  example_saved_def example_new_query_def example_new_session_def example_vis_def
  example_vis_session_def QuerySourceCtrl_def Events_record_def falsy_id_def digest_def
  watch_listener_def edit_def saveQuery_def forkQuery_def promise_then_def settle_def
  callbacks_of_def Let_def

section \<open>Properties\<close>

subsection \<open>Frames of the digest and of an edit\<close>

lemma digest_frame:
  "queryText (digest s) = queryText s" "query_query (digest s) = query_query s"
  "query_version (digest s) = query_version s" "thens (digest s) = thens s"
  "location (digest s) = location s" "isNewQuery (digest s) = isNewQuery s"
  "growl (digest s) = growl s"
  by (simp_all add: digest_def watch_listener_def)

lemma edit_frame:
  "queryText (edit t s) = queryText s" "query_query (edit t s) = t"
  "query_version (edit t s) = query_version s" "thens (edit t s) = thens s"
  "location (edit t s) = location s" "isNewQuery (edit t s) = isNewQuery s"
  by (simp_all add: edit_def digest_frame)

lemma run_callback_query_query:
  "query_query (run_callback cb r s) = query_query s"
  by (cases cb; cases r) (simp_all add: Let_def growl_addErrorMessage_def split: sum.splits)

lemma run_callbacks_query_query:
  "query_query (foldl (\<lambda>st cb. run_callback cb r st) s cbs) = query_query s"
  by (induction cbs arbitrary: s) (simp_all add: run_callback_query_query)

lemma run_callback_saved_state:
  "saved_state sq s \<Longrightarrow> saved_state sq (run_callback cb (Fulfilled sq) s)"
  by (cases cb) (simp_all add: saved_state_def Let_def split: sum.splits)

lemma run_callback_SaveThen_saved_state:
  "saved_state sq (run_callback SaveThen (Fulfilled sq) s)"
  by (simp add: saved_state_def Let_def)

lemma run_callbacks_saved_state:
  "saved_state sq s \<Longrightarrow> saved_state sq (foldl (\<lambda>st cb. run_callback cb (Fulfilled sq) st) s cbs)"
  by (induction cbs arbitrary: s) (simp_all add: run_callback_saved_state)

lemma run_callbacks_SaveThen:
  "SaveThen \<in> set cbs \<Longrightarrow> saved_state sq (foldl (\<lambda>st cb. run_callback cb (Fulfilled sq) st) s cbs)"
proof (induction cbs arbitrary: s)
  case Nil
  then show ?case by simp
next
  case (Cons cb cbs)
  show ?case
  proof (cases "SaveThen \<in> set cbs")
    case True
    then show ?thesis using Cons.IH by simp
  next
    case False
    with Cons.prems have "cb = SaveThen" by simp
    then show ?thesis
      by (simp add: run_callbacks_saved_state run_callback_SaveThen_saved_state del: run_callback.simps)
  qed
qed

lemma callbacks_of_mem: "(p, cb) \<in> set (thens s) \<Longrightarrow> cb \<in> set (callbacks_of p s)"
  by (force simp: callbacks_of_def)

lemma settle_saved_state:
  assumes "(p, SaveThen) \<in> set (thens s)"
  shows "saved_state sq (settle p (Fulfilled sq) s)"
  unfolding settle_def using callbacks_of_mem [OF assms] by (rule run_callbacks_SaveThen)

lemma settle_query_query: "query_query (settle p r s) = query_query s"
  by (simp add: settle_def run_callbacks_query_query)

lemma digest_saved_state: "saved_state sq s \<Longrightarrow> saved_state sq (digest s)"
  by (auto simp: saved_state_def digest_def watch_listener_def)

subsection \<open>Attaching callbacks and settling a promise\<close>

lemma callbacks_of_promise_then:
  "callbacks_of p (promise_then q cb s) = (if q = p then callbacks_of p s @ [cb] else callbacks_of p s)"
  by (simp add: callbacks_of_def promise_then_def)

lemma fresh_callbacks_of: "p \<notin> fst ` set (thens s) \<Longrightarrow> callbacks_of p s = []"
  by (auto simp: callbacks_of_def filter_empty_conv)

lemma fresh_filter: "p \<notin> fst ` set (thens s) \<Longrightarrow> filter (\<lambda>e. fst e \<noteq> p) (thens s) = thens s"
  by (auto simp: filter_id_conv)

lemma settle_promise_then_fresh:
  assumes "p \<notin> fst ` set (thens s)"
  shows "settle p r (promise_then p cb s) = run_callback cb r s"
proof -
  have "filter (\<lambda>e. fst e \<noteq> p) (thens s @ [(p, cb)]) = thens s"
    using fresh_filter [OF assms] by simp
  moreover have "callbacks_of p (promise_then p cb s) = [cb]"
    using fresh_callbacks_of [OF assms] by (simp add: callbacks_of_promise_then)
  ultimately show ?thesis
    by (simp add: settle_def promise_then_def)
qed

lemma settle_single:
  "callbacks_of p s = [cb] \<Longrightarrow>
   settle p r s = run_callback cb r (s\<lparr>thens := filter (\<lambda>e. fst e \<noteq> p) (thens s)\<rparr>)"
  by (simp add: settle_def)

subsection \<open>A successful save\<close>

text \<open>
  Claim C1. When the promise of a save is fulfilled with the text and version of
  \<open>sq\<close>, then whatever the draft \<open>s1\<close> is at that moment, \<open>queryText\<close> and the
  version become those of \<open>sq\<close>, the current text is untouched and \<open>isDirty\<close> says
  whether the text current at that moment differs from the saved one. In particular, when
  \<open>edit t2\<close> runs between the call of \<open>saveQuery\<close> and the fulfilment, \<open>isDirty\<close>
  compares \<open>t2\<close>, also after the digest that follows the callback.
\<close>

theorem save_success_reconciles:
  assumes "saveQuery_base options data = Some p"
    and "(p, SaveThen) \<in> set (thens s1)"
  shows "queryText (settle p (Fulfilled sq) s1) = sq_query sq \<and>
         query_version (settle p (Fulfilled sq) s1) = sq_version sq \<and>
         query_query (settle p (Fulfilled sq) s1) = query_query s1 \<and>
         isDirty (settle p (Fulfilled sq) s1) = (query_query s1 \<noteq> sq_query sq) \<and>
         isDirty (settle p (Fulfilled sq)
                    (edit t2 (fst (saveQuery saveQuery_base options data s))))
           = (t2 \<noteq> sq_query sq) \<and>
         isDirty (digest (settle p (Fulfilled sq)
                    (edit t2 (fst (saveQuery saveQuery_base options data s)))))
           = (t2 \<noteq> sq_query sq)"
proof -
  let ?s2 = "edit t2 (fst (saveQuery saveQuery_base options data s))"
  have reg: "(p, SaveThen) \<in> set (thens ?s2)"
    using assms(1) by (simp add: saveQuery_def promise_then_def edit_frame)
  have gen: "saved_state sq (settle p (Fulfilled sq) s1)"
    using assms(2) by (rule settle_saved_state)
  have a: "saved_state sq (settle p (Fulfilled sq) ?s2)"
    using reg by (rule settle_saved_state)
  have b: "saved_state sq (digest (settle p (Fulfilled sq) ?s2))"
    using a by (rule digest_saved_state)
  show ?thesis
    using gen a b
    by (simp add: saved_state_def settle_query_query digest_frame edit_frame)
qed

theorem save_success_reconciles_witness:
  "example_collaborator None None = Some 0 \<and>
   (0, SaveThen) \<in> set (thens (fst (saveQuery example_collaborator None None example_session))) \<and>
   queryText (settle 0 (Fulfilled example_saved)
       (fst (saveQuery example_collaborator None None example_session))) = ''SELECT 2'' \<and>
   isDirty (settle 0 (Fulfilled example_saved)
       (edit ''SELECT 3'' (fst (saveQuery example_collaborator None None example_session))))"
proof -
  have h1: "example_collaborator None None = Some 0"
    by (simp add: example_collaborator_def)
  have h2: "(0, SaveThen) \<in> set (thens (fst (saveQuery example_collaborator None None example_session)))"
    by (simp add: saveQuery_def promise_then_def example_collaborator_def)
  show ?thesis
    using h1 h2
      save_success_reconciles [of example_collaborator None None 0
        "fst (saveQuery example_collaborator None None example_session)"
        example_saved "''SELECT 3''" example_session, OF h1 h2]
    by (simp add: example_saved_def)
qed

text \<open>
  Claim C6. When the promise of a save is fulfilled and the save's callback is the only
  one on it, the location afterwards is the old one with the path set to the source link
  of the saved query if \<open>isNewQuery\<close> holds, and the old one otherwise; the fragment,
  the search part and the replace mark are kept in both cases. \<open>isNewQuery\<close> is what
  the controller read off the query's id when the session opened: no edit and no call of
  \<open>saveQuery\<close> changes it.
\<close>

lemma edits_frame:
  "isNewQuery (fold edit ts s) = isNewQuery s \<and> thens (fold edit ts s) = thens s \<and>
   location (fold edit ts s) = location s"
  by (induction ts arbitrary: s) (simp_all add: edit_frame)

lemma saveQuery_frame:
  "isNewQuery (fst (saveQuery b options data s)) = isNewQuery s \<and>
   location (fst (saveQuery b options data s)) = location s"
  by (simp add: saveQuery_def promise_then_def split: option.splits)

theorem save_success_navigation:
  assumes "callbacks_of p s = [SaveThen]"
  shows "location (settle p (Fulfilled sq) s)
           = (if isNewQuery s then location_path (sq_source_link sq) (location s) else location s) \<and>
         loc_hash (location (settle p (Fulfilled sq) s)) = loc_hash (location s) \<and>
         loc_search (location (settle p (Fulfilled sq) s)) = loc_search (location s) \<and>
         loc_replace (location (settle p (Fulfilled sq) s)) = loc_replace (location s) \<and>
         isNewQuery (fold edit ts (fst (saveQuery saveQuery_base options data
             (fold edit ts0 (digest (QuerySourceCtrl q tab loc))))))
           = falsy_id (q_id q)"
proof -
  have "isNewQuery (fold edit ts (fst (saveQuery saveQuery_base options data
             (fold edit ts0 (digest (QuerySourceCtrl q tab loc))))))
           = falsy_id (q_id q)"
    by (simp add: edits_frame saveQuery_frame digest_frame QuerySourceCtrl_def Events_record_def)
  then show ?thesis
    using settle_single [OF assms, of "Fulfilled sq"]
    by (simp add: Let_def location_path_def)
qed

theorem save_success_navigation_witness:
  "callbacks_of 0 (fst (saveQuery example_collaborator None None example_new_session)) = [SaveThen] \<and>
   isNewQuery (fst (saveQuery example_collaborator None None example_new_session)) \<and>
   location (settle 0 (Fulfilled example_saved)
       (fst (saveQuery example_collaborator None None example_new_session)))
     = \<lparr>loc_path = ''/queries/7/source'', loc_search = [], loc_hash = ''chart'',
        loc_replace = False\<rparr> \<and>
   callbacks_of 0 (fst (saveQuery example_collaborator None None example_session)) = [SaveThen] \<and>
   \<not> isNewQuery (fst (saveQuery example_collaborator None None example_session)) \<and>
   location (settle 0 (Fulfilled example_saved)
       (fst (saveQuery example_collaborator None None example_session)))
     = example_location"
proof -
  let ?n = "fst (saveQuery example_collaborator None None example_new_session)"
  let ?o = "fst (saveQuery example_collaborator None None example_session)"
  have h1: "callbacks_of 0 ?n = [SaveThen]"
    by (simp add: example_defs)
  have h2: "callbacks_of 0 ?o = [SaveThen]"
    by (simp add: example_defs)
  have n: "isNewQuery ?n" "location ?n = example_location"
    by (simp_all add: example_defs)
  have o: "\<not> isNewQuery ?o" "location ?o = example_location"
    by (simp_all add: example_defs)
  show ?thesis
    using h1 h2 n o
      save_success_navigation [of 0 ?n example_saved "[]" example_collaborator None None "[]"
        example_new_query "TabStr ''table''" example_location, OF h1]
      save_success_navigation [of 0 ?o example_saved "[]" example_collaborator None None "[]"
        example_query "TabStr ''table''" example_location, OF h2]
    by (simp add: location_path_def example_saved_def example_location_def)
qed

subsection \<open>The dirty flag\<close>

text \<open>
  Claim C2 says that \<open>isDirty\<close> is true exactly when the current text differs from
  \<open>queryText\<close>, after every edit, successful save and successful fork. An edit and a
  successful save keep it so:
\<close>

lemma edit_keeps_dirty_invariant:
  assumes "watched s = Some (query_query s)"
    and "isDirty s = (query_query s \<noteq> queryText s)"
  shows "isDirty (edit t s) = (query_query (edit t s) \<noteq> queryText (edit t s)) \<and>
         watched (edit t s) = Some (query_query (edit t s))"
  using assms by (simp add: edit_def digest_def watch_listener_def)

lemma save_success_restores_dirty_invariant:
  assumes "(p, SaveThen) \<in> set (thens s)"
  shows "isDirty (settle p (Fulfilled sq) s)
           = (query_query (settle p (Fulfilled sq) s) \<noteq> queryText (settle p (Fulfilled sq) s))"
  using settle_saved_state [OF assms, of sq] by (simp add: saved_state_def)

text \<open>
  Claim C2, evaluated where the code breaks it. The example draft is edited to
  \<^verbatim>\<open>SELECT 2\<close>, which makes it dirty, and then forked; the fork is fulfilled with the
  text \<^verbatim>\<open>SELECT 2\<close>. The callback of \<open>forkQuery\<close> moves \<open>queryText\<close> and does not
  recompute \<open>isDirty\<close>, and the digest after it does not run the watcher, since
  \<^verbatim>\<open>query.query\<close> has not changed: the draft stays dirty although its text equals
  \<open>queryText\<close>.
\<close>

theorem fork_leaves_isDirty_stale:
  "isDirty (edit ''SELECT 2'' example_session) \<and>
   isDirty (digest (settle 0 (Fulfilled example_saved)
             (fst (forkQuery example_collaborator None None (edit ''SELECT 2'' example_session))))) \<and>
   query_query (digest (settle 0 (Fulfilled example_saved)
             (fst (forkQuery example_collaborator None None (edit ''SELECT 2'' example_session)))))
     = queryText (digest (settle 0 (Fulfilled example_saved)
             (fst (forkQuery example_collaborator None None (edit ''SELECT 2'' example_session)))))"
  by (simp add: example_defs)

subsection \<open>A successful fork\<close>

text \<open>
  Claim C3. A fulfilled fork changes \<open>queryText\<close> and nothing else: on a fresh promise
  the state after the callback is the state before the call with \<open>queryText\<close> set to
  the text of the fork, and on any later draft \<open>s1\<close> on which the fork's callback is the
  only one attached to the promise, only \<open>queryText\<close> moves (and the callback leaves the
  list of pending ones); the current text and the location are the same, so the fork
  navigates nowhere.
\<close>

theorem fork_success_frame:
  assumes "forkQuery_base options data = Some p"
    and "p \<notin> fst ` set (thens s)"
    and "callbacks_of p s1 = [ForkThen]"
  shows "settle p (Fulfilled sq) (fst (forkQuery forkQuery_base options data s))
           = s\<lparr>queryText := sq_query sq\<rparr> \<and>
         settle p (Fulfilled sq) s1
           = s1\<lparr>queryText := sq_query sq, thens := filter (\<lambda>e. fst e \<noteq> p) (thens s1)\<rparr> \<and>
         query_query (settle p (Fulfilled sq) s1) = query_query s1 \<and>
         location (settle p (Fulfilled sq) s1) = location s1"
proof -
  have "settle p (Fulfilled sq) (fst (forkQuery forkQuery_base options data s))
           = s\<lparr>queryText := sq_query sq\<rparr>"
    using assms(1) settle_promise_then_fresh [OF assms(2)] by (simp add: forkQuery_def)
  moreover have "settle p (Fulfilled sq) s1
           = s1\<lparr>queryText := sq_query sq, thens := filter (\<lambda>e. fst e \<noteq> p) (thens s1)\<rparr>"
    using settle_single [OF assms(3)] by simp
  ultimately show ?thesis by simp
qed

theorem fork_success_frame_witness:
  "example_collaborator None None = Some 0 \<and>
   0 \<notin> fst ` set (thens (edit ''SELECT 2'' example_session)) \<and>
   callbacks_of 0 (fst (forkQuery example_collaborator None None (edit ''SELECT 2'' example_session)))
     = [ForkThen] \<and>
   settle 0 (Fulfilled example_saved)
       (fst (forkQuery example_collaborator None None (edit ''SELECT 2'' example_session)))
     = (edit ''SELECT 2'' example_session)\<lparr>queryText := ''SELECT 2''\<rparr>"
proof -
  let ?s = "edit ''SELECT 2'' example_session"
  have h1: "example_collaborator None None = Some 0"
    by (simp add: example_collaborator_def)
  have h2: "0 \<notin> fst ` set (thens ?s)"
    by (simp add: example_defs)
  have h3: "callbacks_of 0 (fst (forkQuery example_collaborator None None ?s)) = [ForkThen]"
    by (simp add: example_defs)
  show ?thesis
    using h1 h2 h3
      fork_success_frame [of example_collaborator None None 0 ?s
        "fst (forkQuery example_collaborator None None ?s)" example_saved, OF h1 h2 h3]
    by (simp add: example_saved_def)
qed

subsection \<open>A failed save\<close>

lemma run_callback_Rejected_frame:
  "queryText (run_callback cb (Rejected e) s) = queryText s \<and>
   query_version (run_callback cb (Rejected e) s) = query_version s \<and>
   query_query (run_callback cb (Rejected e) s) = query_query s \<and>
   isDirty (run_callback cb (Rejected e) s) = isDirty s \<and>
   location (run_callback cb (Rejected e) s) = location s \<and>
   set (growl s) \<subseteq> set (growl (run_callback cb (Rejected e) s))"
  by (cases cb) (auto simp: growl_addErrorMessage_def)

lemma run_callbacks_Rejected_frame:
  "queryText (foldl (\<lambda>st cb. run_callback cb (Rejected e) st) s cbs) = queryText s \<and>
   query_version (foldl (\<lambda>st cb. run_callback cb (Rejected e) st) s cbs) = query_version s \<and>
   query_query (foldl (\<lambda>st cb. run_callback cb (Rejected e) st) s cbs) = query_query s \<and>
   isDirty (foldl (\<lambda>st cb. run_callback cb (Rejected e) st) s cbs) = isDirty s \<and>
   location (foldl (\<lambda>st cb. run_callback cb (Rejected e) st) s cbs) = location s \<and>
   set (growl s) \<subseteq> set (growl (foldl (\<lambda>st cb. run_callback cb (Rejected e) st) s cbs))"
proof (induction cbs arbitrary: s)
  case Nil
  show ?case by simp
next
  case (Cons cb cbs)
  show ?case
    using Cons.IH [of "run_callback cb (Rejected e) s"] run_callback_Rejected_frame [of cb e s]
    by (simp del: run_callback.simps) blast
qed

lemma run_callbacks_conflict_warning:
  "err_status e = 409 \<Longrightarrow> SaveThen \<in> set cbs \<Longrightarrow>
   conflict_warning \<in> set (growl (foldl (\<lambda>st cb. run_callback cb (Rejected e) st) s cbs))"
proof (induction cbs arbitrary: s)
  case Nil
  then show ?case by simp
next
  case (Cons cb cbs)
  show ?case
  proof (cases "cb = SaveThen")
    case True
    have "conflict_warning \<in> set (growl (run_callback SaveThen (Rejected e) s))"
      using Cons.prems(1) by (simp add: growl_addErrorMessage_def conflict_warning_def)
    then show ?thesis
      using True run_callbacks_Rejected_frame [of e "run_callback SaveThen (Rejected e) s" cbs]
      by (auto simp del: run_callback.simps)
  next
    case False
    then have "SaveThen \<in> set cbs" using Cons.prems(2) by simp
    then show ?thesis using Cons.IH [OF Cons.prems(1)] by simp
  qed
qed

text \<open>
  Claim C4. When a save is rejected with status 409, \<open>queryText\<close>, the version and the
  current text are what they were, and the message list holds the conflict message with
  \<^verbatim>\<open>ttl: -1\<close>, the value with which growl never expires a message; the handler itself
  appends that message and does nothing else.
\<close>

theorem save_conflict_keeps_draft_and_warns:
  assumes "err_status error = 409"
    and "(p, SaveThen) \<in> set (thens s)"
  shows "queryText (settle p (Rejected error) s) = queryText s \<and>
         query_version (settle p (Rejected error) s) = query_version s \<and>
         query_query (settle p (Rejected error) s) = query_query s \<and>
         \<lparr>gm_text = conflict_message, gm_ttl = Some (- 1)\<rparr> \<in> set (growl (settle p (Rejected error) s)) \<and>
         run_callback SaveThen (Rejected error) s
           = s\<lparr>growl := growl s @ [\<lparr>gm_text = conflict_message, gm_ttl = Some (- 1)\<rparr>]\<rparr>"
proof -
  let ?s0 = "s\<lparr>thens := filter (\<lambda>e. fst e \<noteq> p) (thens s)\<rparr>"
  have "conflict_warning \<in> set (growl (settle p (Rejected error) s))"
    unfolding settle_def
    using run_callbacks_conflict_warning [OF assms(1) callbacks_of_mem [OF assms(2)]] by simp
  moreover have "run_callback SaveThen (Rejected error) s
           = s\<lparr>growl := growl s @ [\<lparr>gm_text = conflict_message, gm_ttl = Some (- 1)\<rparr>]\<rparr>"
    using assms(1) by (simp add: growl_addErrorMessage_def)
  ultimately show ?thesis
    using run_callbacks_Rejected_frame [of error ?s0 "callbacks_of p s"]
    by (simp add: settle_def conflict_warning_def)
qed

theorem save_conflict_keeps_draft_and_warns_witness:
  "err_status \<lparr>err_status = 409\<rparr> = 409 \<and>
   (0, SaveThen) \<in> set (thens (fst (saveQuery example_collaborator None None example_session))) \<and>
   queryText (settle 0 (Rejected \<lparr>err_status = 409\<rparr>)
       (fst (saveQuery example_collaborator None None example_session))) = ''SELECT 1'' \<and>
   growl (settle 0 (Rejected \<lparr>err_status = 409\<rparr>)
       (fst (saveQuery example_collaborator None None example_session)))
     = [\<lparr>gm_text = conflict_message, gm_ttl = Some (- 1)\<rparr>]"
proof -
  let ?s = "fst (saveQuery example_collaborator None None example_session)"
  have h1: "err_status \<lparr>err_status = 409\<rparr> = 409" by simp
  have h2: "(0, SaveThen) \<in> set (thens ?s)"
    by (simp add: saveQuery_def promise_then_def example_collaborator_def)
  have g: "growl (settle 0 (Rejected \<lparr>err_status = 409\<rparr>) ?s)
             = [\<lparr>gm_text = conflict_message, gm_ttl = Some (- 1)\<rparr>]"
    by (simp add: example_defs growl_addErrorMessage_def)
  show ?thesis
    using h1 h2 g
      save_conflict_keeps_draft_and_warns [of "\<lparr>err_status = 409\<rparr>" 0 ?s, OF h1 h2]
    by (simp add: example_defs)
qed

lemma run_callback_Rejected_other:
  "err_status e \<noteq> 409 \<Longrightarrow> run_callback cb (Rejected e) s = s"
  by (cases cb) simp_all

lemma run_callbacks_Rejected_other:
  "err_status e \<noteq> 409 \<Longrightarrow> foldl (\<lambda>st cb. run_callback cb (Rejected e) st) s cbs = s"
  by (induction cbs arbitrary: s) (simp_all add: run_callback_Rejected_other del: run_callback.simps)

text \<open>
  Claim C8. When a save is rejected with a status other than 409, \<open>saveQuery\<close> has
  returned the promise of the base \<open>saveQuery\<close> itself, which is the rejected one, and
  the rejection changes nothing: after it the state is the one \<open>saveQuery\<close> was called
  on, and on any draft \<open>s1\<close> only the callbacks of the promise leave the pending list.
\<close>

theorem save_other_failure_propagates:
  assumes "err_status error \<noteq> 409"
    and "saveQuery_base options data = Some p"
    and "p \<notin> fst ` set (thens s)"
  shows "snd (saveQuery saveQuery_base options data s) = Some p \<and>
         settle p (Rejected error) (fst (saveQuery saveQuery_base options data s)) = s \<and>
         settle p (Rejected error) s1 = s1\<lparr>thens := filter (\<lambda>e. fst e \<noteq> p) (thens s1)\<rparr>"
proof -
  have "settle p (Rejected error) (fst (saveQuery saveQuery_base options data s)) = s"
    using assms(2) settle_promise_then_fresh [OF assms(3)] run_callback_Rejected_other [OF assms(1)]
    by (simp add: saveQuery_def del: run_callback.simps)
  moreover have "settle p (Rejected error) s1 = s1\<lparr>thens := filter (\<lambda>e. fst e \<noteq> p) (thens s1)\<rparr>"
    by (simp add: settle_def run_callbacks_Rejected_other [OF assms(1)])
  ultimately show ?thesis using assms(2) by (simp add: saveQuery_def)
qed

theorem save_other_failure_propagates_witness:
  "err_status \<lparr>err_status = 500\<rparr> \<noteq> 409 \<and>
   example_collaborator None None = Some 0 \<and>
   0 \<notin> fst ` set (thens example_session) \<and>
   snd (saveQuery example_collaborator None None example_session) = Some 0 \<and>
   settle 0 (Rejected \<lparr>err_status = 500\<rparr>)
       (fst (saveQuery example_collaborator None None example_session)) = example_session"
proof -
  have h1: "err_status \<lparr>err_status = 500\<rparr> \<noteq> 409" by simp
  have h2: "example_collaborator None None = Some 0"
    by (simp add: example_collaborator_def)
  have h3: "0 \<notin> fst ` set (thens example_session)"
    by (simp add: example_defs)
  show ?thesis
    using h1 h2 h3
      save_other_failure_propagates [of "\<lparr>err_status = 500\<rparr>" example_collaborator None None 0
        example_session example_session, OF h1 h2 h3]
    by simp
qed

subsection \<open>A save that is not sent\<close>

text \<open>
  Claim C5. When the base \<open>saveQuery\<close> returns nothing, \<open>saveQuery\<close> returns nothing
  and the state, the list of attached callbacks included, is the one it was called on.
\<close>

theorem save_without_deferred:
  "saveQuery_base options data = None \<Longrightarrow> saveQuery saveQuery_base options data s = (s, None)"
  by (simp add: saveQuery_def)

theorem save_without_deferred_witness:
  "(\<lambda>options data. None) None None = (None :: promise option) \<and>
   saveQuery (\<lambda>options data. None) None None example_session = (example_session, None)"
proof -
  have h: "(\<lambda>options data. None) None None = (None :: promise option)" by simp
  show ?thesis
    using h save_without_deferred [of "\<lambda>options data. None" None None example_session, OF h]
    by simp
qed

subsection \<open>Duplicating a query\<close>





text \<open>The decoder and the setter on some inputs.\<close>

lemma char_of_bytes:
  "char_of (32 :: nat) = CHR '' ''" "char_of (47 :: nat) = CHR ''/''"
  "char_of (195 :: nat) = CHR 0xC3" "char_of (169 :: nat) = CHR 0xA9"
  "char_of (226 :: nat) = CHR 0xE2" "char_of (130 :: nat) = CHR 0x82"
  "char_of (172 :: nat) = CHR 0xAC" "char_of (240 :: nat) = CHR 0xF0"
  "char_of (159 :: nat) = CHR 0x9F" "char_of (152 :: nat) = CHR 0x98"
  "char_of (128 :: nat) = CHR 0x80"
  by code_simp+

lemma decodeURIComponent_examples:
  "decodeURIComponent ''/queries/7/source'' = Inr ''/queries/7/source''"
  "decodeURIComponent ''a%20b%2Fc%2fd'' = Inr ''a b/c/d''"
  "decodeURIComponent ''%C3%A9'' = Inr [CHR 0xC3, CHR 0xA9]"
  "decodeURIComponent ''%E2%82%AC'' = Inr [CHR 0xE2, CHR 0x82, CHR 0xAC]"
  "decodeURIComponent ''%F0%9F%98%80'' = Inr [CHR 0xF0, CHR 0x9F, CHR 0x98, CHR 0x80]"
  "decodeURIComponent ''100%'' = Inl URIError"
  "decodeURIComponent ''%2'' = Inl URIError"
  "decodeURIComponent ''%2g'' = Inl URIError"
  "decodeURIComponent ''%80'' = Inl URIError"
  "decodeURIComponent ''%C3'' = Inl URIError"
  "decodeURIComponent ''%C3x'' = Inl URIError"
  "decodeURIComponent ''%C3%41'' = Inl URIError"
  "decodeURIComponent ''%C0%80'' = Inl URIError"
  "decodeURIComponent ''%E0%80%80'' = Inl URIError"
  "decodeURIComponent ''%ED%A0%80'' = Inl URIError"
  "decodeURIComponent ''%F0%80%80%80'' = Inl URIError"
  "decodeURIComponent ''%F4%90%80%80'' = Inl URIError"
  "decodeURIComponent ''%F8%80%80%80%80'' = Inl URIError"
  by (simp_all add: decodeURIComponent_def hex_value_def utf8_valid_def utf8_length_def
      char_of_bytes)

lemma location_url_examples:
  "location_url ''/a?b=c#d'' example_location
     = Inr \<lparr>loc_path = ''/a'', loc_search = ''b=c'', loc_hash = ''d'', loc_replace = False\<rparr>"
  "location_url ''a'' example_location
     = Inr \<lparr>loc_path = ''/a'', loc_search = [], loc_hash = [], loc_replace = False\<rparr>"
  "location_url ''?b=c'' example_location
     = Inr \<lparr>loc_path = ''/queries/1/source'', loc_search = ''b=c'', loc_hash = [],
            loc_replace = False\<rparr>"
  "location_url ''#d'' example_location
     = Inr \<lparr>loc_path = ''/queries/1/source'', loc_search = [], loc_hash = ''d'',
            loc_replace = False\<rparr>"
  "location_url [] example_location
     = Inr \<lparr>loc_path = ''/queries/1/source'', loc_search = [], loc_hash = [],
            loc_replace = False\<rparr>"
  "location_url ''/a%zz'' example_location = Inl URIError"
  "location_url (''/a#b'' @ [CHR 0x0D]) example_location = Inl TypeError"
  "location_url (''/a#'' @ [CHR 0xE2, CHR 0x80, CHR 0xA8]) example_location = Inl TypeError"
  "location_url (''/a#'' @ [CHR 0xE2, CHR 0x80, CHR 0xA9]) example_location = Inl TypeError"
  "location_url (''/a'' @ [CHR 0x0A] @ ''b?c'' @ [CHR 0x0A] @ ''d'') example_location
     = Inr \<lparr>loc_path = ''/a'' @ [CHR 0x0A] @ ''b'', loc_search = ''c'' @ [CHR 0x0A] @ ''d'',
            loc_hash = [], loc_replace = False\<rparr>"
  by (simp_all add: location_url_def location_path_def location_hash_def location_search_def
      url_path_def url_hash_def url_search_def url_has_search_def url_after_path_def
      decodeURIComponent_def hex_value_def example_location_def)








text \<open>
  Claim C10. When the base \<open>forkQuery\<close> returns nothing for the arguments of a
  duplicate, \<open>forkQuery\<close> returns nothing and leaves the state alone, and
  \<open>duplicateQuery\<close> throws a \<open>TypeError\<close>, after recording the fork event.
\<close>

theorem duplicate_without_deferred_throws:
  "forkQuery_base (Some duplicate_options) None = None \<Longrightarrow>
   forkQuery forkQuery_base (Some duplicate_options) None s = (s, None) \<and>
   duplicateQuery forkQuery_base s =
     (Events_record ''fork'' ''query'' (query_id s) s, Throws TypeError)"
  by (simp add: duplicateQuery_def forkQuery_def Let_def)

theorem duplicate_without_deferred_throws_witness:
  "(\<lambda>options data. None) (Some duplicate_options) None = (None :: promise option) \<and>
   snd (duplicateQuery (\<lambda>options data. None) example_session) = Throws TypeError"
proof -
  have h: "(\<lambda>options data. None) (Some duplicate_options) None = (None :: promise option)" by simp
  show ?thesis
    using h duplicate_without_deferred_throws [of "\<lambda>options data. None" example_session, OF h]
    by simp
qed

subsection \<open>A deleted visualization\<close>

text \<open>
  Claim C9. When the deletion of \<open>vis\<close> succeeds, the visualizations kept are those
  of the list whose id differs from the id of \<open>vis\<close>, in their order. The selected tab
  and the fragment depend on what the selected tab was: a number equal to the id of
  \<open>vis\<close>, or a string that converts to it, and the selected tab becomes \<^verbatim>\<open>table\<close>
  and so does the fragment, the rest of the location staying as it was; any other number
  or string, and the selected tab and the location are unchanged. A confirmed
  \<open>deleteVisualization\<close> is what puts \<open>vis\<close> among the pending deletions.
\<close>

theorem delete_success_effect:
  assumes "vis \<in> set (deletes s)"
  shows "query_visualizations (delete_settled toNumber vis True s)
           = filter (\<lambda>v. vis_id vis \<noteq> vis_id v) (query_visualizations s) \<and>
         selectedTab (delete_settled toNumber vis True s)
           = (case selectedTab s of
                TabNum n \<Rightarrow> if n = vis_id vis then TabStr ''table'' else TabNum n
              | TabStr t \<Rightarrow> if toNumber t = Some (vis_id vis) then TabStr ''table'' else TabStr t) \<and>
         location (delete_settled toNumber vis True s)
           = (case selectedTab s of
                TabNum n \<Rightarrow>
                  if n = vis_id vis then (location s)\<lparr>loc_hash := ''table''\<rparr> else location s
              | TabStr t \<Rightarrow>
                  if toNumber t = Some (vis_id vis) then (location s)\<lparr>loc_hash := ''table''\<rparr>
                  else location s) \<and>
         vis \<in> set (deletes (fst (deleteVisualization (\<lambda>m. True) ev vis s0)))"
proof (cases "selectedTab s")
  case (TabStr t)
  then show ?thesis
    using assms
    by (simp add: delete_settled_def delete_success_def Let_def DEFAULT_TAB_def location_hash_def
        deleteVisualization_def Events_record_def)
next
  case (TabNum n)
  then show ?thesis
    using assms
    by (simp add: delete_settled_def delete_success_def Let_def DEFAULT_TAB_def location_hash_def
        deleteVisualization_def Events_record_def)
qed

theorem delete_success_effect_witness:
  "example_vis \<in> set (deletes (example_vis_session (TabNum 3))) \<and>
   query_visualizations (delete_settled example_toNumber example_vis True
       (example_vis_session (TabNum 3)))
     = [\<lparr>vis_id = 4, vis_name = ''Map''\<rparr>] \<and>
   selectedTab (delete_settled example_toNumber example_vis True (example_vis_session (TabNum 3)))
     = TabStr ''table'' \<and>
   location (delete_settled example_toNumber example_vis True (example_vis_session (TabNum 3)))
     = example_location\<lparr>loc_hash := ''table''\<rparr> \<and>
   selectedTab (delete_settled example_toNumber example_vis True (example_vis_session (TabStr ''3'')))
     = TabStr ''table'' \<and>
   location (delete_settled example_toNumber example_vis True (example_vis_session (TabStr ''3'')))
     = example_location\<lparr>loc_hash := ''table''\<rparr> \<and>
   selectedTab (delete_settled example_toNumber example_vis True (example_vis_session (TabNum 4)))
     = TabNum 4 \<and>
   location (delete_settled example_toNumber example_vis True (example_vis_session (TabNum 4)))
     = example_location \<and>
   selectedTab (delete_settled example_toNumber example_vis True
       (example_vis_session (TabStr ''chart'')))
     = TabStr ''chart'' \<and>
   location (delete_settled example_toNumber example_vis True
       (example_vis_session (TabStr ''chart'')))
     = example_location"
proof -
  have h: "example_vis \<in> set (deletes (example_vis_session tab))" for tab
    by (simp add: example_defs deleteVisualization_def)
  have v: "query_visualizations (example_vis_session tab)
             = [example_vis, \<lparr>vis_id = 4, vis_name = ''Map''\<rparr>, \<lparr>vis_id = 3, vis_name = ''Copy''\<rparr>]"
    "selectedTab (example_vis_session tab) = tab"
    "location (example_vis_session tab) = example_location" for tab
    by (simp_all add: example_defs deleteVisualization_def)
  have n: "example_toNumber ''3'' = Some 3" "example_toNumber ''chart'' = None"
    by (simp_all add: example_toNumber_def)
  note t = delete_success_effect [of example_vis _ example_toNumber
        "\<lparr>defaultPrevented = False\<rparr>" example_session, OF h]
  show ?thesis
    using h [of "TabNum 3"] t [of "TabNum 3"] t [of "TabStr ''3''"] t [of "TabNum 4"]
      t [of "TabStr ''chart''"]
    by (simp add: v n) (simp add: example_vis_def)
qed

end
